theory Spec2Isabelle
  imports Main
begin

section \<open>Python strings\<close>

text \<open>
  A Python \<open>str\<close> is a sequence of Unicode code points. The extracted text is Japanese
  in practice, so a character is modelled by its code point and not by a byte.
\<close>

type_synonym codepoint = nat
type_synonym str = "codepoint list"
type_synonym bytes = "nat list"

definition ascii :: "string \<Rightarrow> str" where
  "ascii s = map of_char s"

definition tab :: codepoint where
  "tab = 9"

definition newline :: codepoint where
  "newline = 10"

definition comma :: codepoint where
  "comma = 44"

text \<open>
  The characters \<open>str.strip()\<close> removes when called without an argument: the code
  points for which \<open>str.isspace\<close> holds.
\<close>

definition isspace :: "codepoint \<Rightarrow> bool" where
  "isspace c \<longleftrightarrow>
     (9 \<le> c \<and> c \<le> 13) \<or> (28 \<le> c \<and> c \<le> 32) \<or> c = 133 \<or> c = 160 \<or>
     c = 5760 \<or> (8192 \<le> c \<and> c \<le> 8202) \<or> c = 8232 \<or> c = 8233 \<or>
     c = 8239 \<or> c = 8287 \<or> c = 12288"

definition strip :: "str \<Rightarrow> str" where
  "strip s = rev (dropWhile isspace (rev (dropWhile isspace s)))"

text \<open>
  Splitting at every character that satisfies \<open>sep\<close>, keeping empty pieces:
  \<open>text.split('\n')\<close> and \<open>re.split(r'[\t,]', line)\<close> are both of this form, and both
  return one (empty) piece on the empty string.
\<close>

fun split_at :: "(codepoint \<Rightarrow> bool) \<Rightarrow> str \<Rightarrow> str list" where
  "split_at sep [] = [[]]"
| "split_at sep (c # cs) =
     (if sep c then [] # split_at sep cs
      else (c # hd (split_at sep cs)) # tl (split_at sep cs))"

definition is_newline :: "codepoint \<Rightarrow> bool" where
  "is_newline c \<longleftrightarrow> c = newline"

definition tab_or_comma :: "codepoint \<Rightarrow> bool" where
  "tab_or_comma c \<longleftrightarrow> c = tab \<or> c = comma"

text \<open>\<open>d.join(row)\<close> for a one-character delimiter \<open>d\<close>.\<close>

fun join :: "codepoint \<Rightarrow> str list \<Rightarrow> str" where
  "join d [] = []"
| "join d [x] = x"
| "join d (x # y # ys) = x @ d # join d (y # ys)"

section \<open>The parser: \<open>convert_to_table\<close>\<close>

text \<open>
  The two statements of the loop body that turn a line into a row (app.py 82-83,
  image_to_text.py 56-58).
\<close>

definition parse_row :: "str \<Rightarrow> str list" where
  "parse_row line =
     (let row = split_at tab_or_comma line
      in map strip (filter (\<lambda>item. strip item \<noteq> []) row))"

text \<open>The \<open>for line in lines\<close> loop, with \<open>table_data\<close> as the accumulator.\<close>

fun table_loop :: "str list \<Rightarrow> str list list \<Rightarrow> str list list" where
  "table_loop [] table_data = table_data"
| "table_loop (line # lines) table_data =
     (let row = parse_row line
      in table_loop lines (if row \<noteq> [] then table_data @ [row] else table_data))"

definition convert_to_table :: "str \<Rightarrow> str list list" where
  "convert_to_table text = table_loop (split_at is_newline (strip text)) []"

section \<open>Collaborators, ledger file and effects\<close>

datatype error =
    ValueError
  | LedgerReadError
  | LedgerWriteError
  | RequestError
  | DownloadFailed int
  | SheetsError
  | ReplyError

datatype 'a outcome = Raises | Returns 'a

text \<open>
  What the outside world answers while one event is handled. Every collaborator is
  called at most once per event, except the reply API, which has two call sites: the
  reply of the pipeline itself (app.py 211 and 224, of which at most one runs) and the
  reply of the top-level exception handler (app.py 242).
  \<^item> \<open>http_get\<close>: \<open>requests.get\<close> raises, or returns a status code and a body;
  \<^item> \<open>generate_content\<close>: opening the image and asking the model raises, or returns
    \<open>response.text\<close>;
  \<^item> \<open>service_account_file\<close>: the environment variable read by
    \<open>get_google_sheets_service\<close>;
  \<^item> \<open>sheets_append\<close>: loading the credentials, building the service and executing the
    append request raises, or returns;
  \<^item> \<open>now\<close>: the formatted current time;
  \<^item> \<open>ledger_writable\<close>: whether opening the ledger file for writing succeeds.
\<close>

record world =
  http_get :: "(int \<times> bytes) outcome"
  generate_content :: "str outcome"
  service_account_file :: "str option"
  sheets_append :: "unit outcome"
  now :: str
  ledger_writable :: bool
  reply_call :: "unit outcome"
  error_reply_call :: "unit outcome"

record event =
  message_id :: str
  reply_token :: str

text \<open>The calls made to the collaborators, in order, with their arguments.\<close>

datatype effect =
    FetchCall str
  | ExtractCall bytes
  | AppendCall "str list list"
  | ReplyCall str str

text \<open>
  The file \<open>saved_messages.json\<close>: missing, present but not loadable (\<open>open\<close> or
  \<open>json.load\<close> raises), or holding a list of identifiers.
\<close>

datatype ledger_file = Absent | Unreadable | Stored "str list"

record state =
  ledger :: ledger_file
  trace :: "effect list"

definition emit :: "effect \<Rightarrow> state \<Rightarrow> state" where
  "emit e s = s\<lparr>trace := trace s @ [e]\<rparr>"

text \<open>The three reply texts of app.py (lines 214, 227 and 245), as code points.\<close>

definition success_text :: str where
  "success_text = [30011, 20687, 12363, 12425, 12486, 12461, 12473, 12488, 12434, 25277,
     20986, 12375, 12289, 12473, 12503, 12524, 12483, 12489, 12471, 12540, 12488, 12395,
     20445, 23384, 12375, 12414, 12375, 12383, 12290]"

definition extraction_failed_text :: str where
  "extraction_failed_text = [12486, 12461, 12473, 12488, 12398, 25277, 20986, 12395, 22833,
     25943, 12375, 12414, 12375, 12383, 12290]"

definition error_text :: str where
  "error_text = [20966, 29702, 20013, 12395, 12456, 12521, 12540, 12364, 30330, 29983,
     12375, 12414, 12375, 12383, 12290]"

text \<open>Python truthiness of a value that is \<open>None\<close> or a \<open>str\<close>.\<close>

definition truthy :: "str option \<Rightarrow> bool" where
  "truthy x = (case x of None \<Rightarrow> False | Some t \<Rightarrow> t \<noteq> [])"

section \<open>The functions of app.py\<close>

definition get_google_sheets_service :: "world \<Rightarrow> error + unit" where
  "get_google_sheets_service w =
     (if \<not> truthy (service_account_file w) then Inl ValueError else Inr ())"

definition append_to_sheet ::
  "world \<Rightarrow> str list list \<Rightarrow> state \<Rightarrow> (error + unit) \<times> state" where
  "append_to_sheet w values s =
     (let s1 = emit (AppendCall values) s in
      case get_google_sheets_service w of
        Inl e \<Rightarrow> (Inl e, s1)
      | Inr service \<Rightarrow>
          (case sheets_append w of
             Raises \<Rightarrow> (Inl SheetsError, s1)
           | Returns result \<Rightarrow> (Inr result, s1)))"

text \<open>The \<open>except Exception\<close> of \<open>extract_text_from_image\<close> maps every failure to \<open>None\<close>.\<close>

definition extract_text_from_image :: "world \<Rightarrow> bytes \<Rightarrow> state \<Rightarrow> str option \<times> state" where
  "extract_text_from_image w image_data s =
     (case generate_content w of
        Returns text \<Rightarrow> Some text
      | Raises \<Rightarrow> None,
      emit (ExtractCall image_data) s)"

definition load_saved_messages :: "state \<Rightarrow> error + str list" where
  "load_saved_messages s =
     (case ledger s of
        Stored ids \<Rightarrow> Inr ids
      | Unreadable \<Rightarrow> Inl LedgerReadError
      | Absent \<Rightarrow> Inr [])"

definition save_message_id :: "world \<Rightarrow> str \<Rightarrow> state \<Rightarrow> (error + unit) \<times> state" where
  "save_message_id w mid s =
     (case load_saved_messages s of
        Inl e \<Rightarrow> (Inl e, s)
      | Inr saved_messages \<Rightarrow>
          if mid \<notin> set saved_messages then
            (if ledger_writable w
             then (Inr (), s\<lparr>ledger := Stored (saved_messages @ [mid])\<rparr>)
             else (Inl LedgerWriteError, s))
          else (Inr (), s))"

text \<open>
  The membership test of \<open>handle_image_message\<close> (app.py 168-169), which is the
  ledger's \<open>has\<close>.
\<close>

definition ledger_has :: "str \<Rightarrow> state \<Rightarrow> error + bool" where
  "ledger_has mid s =
     (case load_saved_messages s of
        Inl e \<Rightarrow> Inl e
      | Inr saved_messages \<Rightarrow> Inr (mid \<in> set saved_messages))"

text \<open>\<open>messaging_api.reply_message\<close>, with the answer of the API at this call site.\<close>

definition reply_message ::
  "unit outcome \<Rightarrow> str \<Rightarrow> str \<Rightarrow> state \<Rightarrow> (error + unit) \<times> state" where
  "reply_message api token text s =
     (case api of Raises \<Rightarrow> Inl ReplyError | Returns u \<Rightarrow> Inr u,
      emit (ReplyCall token text) s)"

text \<open>
  The branch \<open>if extracted_text:\<close> of \<open>handle_image_message\<close> (app.py 190-219). Its
  inner \<open>except\<close> logs and raises again, so a failure passes through unchanged.
\<close>

definition handle_text_branch ::
  "world \<Rightarrow> event \<Rightarrow> str \<Rightarrow> state \<Rightarrow> (error + unit) \<times> state" where
  "handle_text_branch w ev extracted_text s =
     (let table_data = convert_to_table extracted_text;
          current_time = now w;
          values = [current_time, ascii ''LINE Message ID: '' @ message_id ev] # table_data
      in case append_to_sheet w values s of
           (Inl e, s1) \<Rightarrow> (Inl e, s1)
         | (Inr result, s1) \<Rightarrow>
             reply_message (reply_call w) (reply_token ev) success_text s1)"

text \<open>The body of the outer \<open>try\<close> of \<open>handle_image_message\<close> (app.py 164-236).\<close>

definition handle_try_body :: "world \<Rightarrow> event \<Rightarrow> state \<Rightarrow> (error + unit) \<times> state" where
  "handle_try_body w ev s =
     (case load_saved_messages s of
        Inl e \<Rightarrow> (Inl e, s)
      | Inr saved_messages \<Rightarrow>
          if message_id ev \<in> set saved_messages then (Inr (), s)
          else
            (let s1 = emit (FetchCall (message_id ev)) s in
             case http_get w of
               Raises \<Rightarrow> (Inl RequestError, s1)
             | Returns (status_code, content) \<Rightarrow>
                 if status_code = 200 then
                   (case extract_text_from_image w content s1 of
                      (extracted_text, s2) \<Rightarrow>
                        (case (case extracted_text of
                                 Some text \<Rightarrow>
                                   if text \<noteq> [] then handle_text_branch w ev text s2
                                   else reply_message (reply_call w) (reply_token ev)
                                          extraction_failed_text s2
                               | None \<Rightarrow>
                                   reply_message (reply_call w) (reply_token ev)
                                     extraction_failed_text s2) of
                           (Inl e, s3) \<Rightarrow> (Inl e, s3)
                         | (Inr u, s3) \<Rightarrow> save_message_id w (message_id ev) s3))
                 else (Inl (DownloadFailed status_code), s1)))"

text \<open>
  \<open>handle_image_message\<close>: the outer \<open>except Exception\<close> answers every failure of the
  body with the generic error reply; a failure of that reply leaves the handler.
\<close>

definition handle_image_message ::
  "world \<Rightarrow> event \<Rightarrow> state \<Rightarrow> (error + unit) \<times> state" where
  "handle_image_message w ev s =
     (case handle_try_body w ev s of
        (Inl e, s1) \<Rightarrow> reply_message (error_reply_call w) (reply_token ev) error_text s1
      | (Inr u, s1) \<Rightarrow> (Inr u, s1))"

section \<open>Reading a trace\<close>

fun replies :: "effect list \<Rightarrow> str list" where
  "replies [] = []"
| "replies (ReplyCall token text # es) = text # replies es"
| "replies (e # es) = replies es"

section \<open>Concrete inputs\<close>

definition png :: bytes where
  "png = [137, 80, 78, 71]"

definition w_ok :: world where
  "w_ok = \<lparr>http_get = Returns (200, png),
           generate_content = Returns (ascii ''a,b''),
           service_account_file = Some (ascii ''sa.json''),
           sheets_append = Returns (),
           now = ascii ''2024-01-01 00:00:00'',
           ledger_writable = True,
           reply_call = Returns (),
           error_reply_call = Returns ()\<rparr>"

text \<open>Variations of it: one collaborator answers differently.\<close>

definition w_readonly :: world where
  "w_readonly = w_ok\<lparr>ledger_writable := False\<rparr>"

definition w_reply_raises :: world where
  "w_reply_raises = w_ok\<lparr>reply_call := Raises\<rparr>"

definition w_sink_raises :: world where
  "w_sink_raises = w_ok\<lparr>sheets_append := Raises\<rparr>"

definition w_model_raises :: world where
  "w_model_raises = w_ok\<lparr>generate_content := Raises\<rparr>"

definition w_blank :: world where
  "w_blank = w_ok\<lparr>generate_content := Returns (ascii ''  '')\<rparr>"

definition msg123 :: event where
  "msg123 = \<lparr>message_id = ascii ''msg123'', reply_token = ascii ''tok''\<rparr>"

definition fresh :: state where
  "fresh = \<lparr>ledger = Absent, trace = []\<rparr>"

definition seen_msg122 :: state where
  "seen_msg122 = \<lparr>ledger = Stored [ascii ''msg122''], trace = []\<rparr>"

definition seen_msg123 :: state where
  "seen_msg123 = \<lparr>ledger = Stored [ascii ''msg123''], trace = []\<rparr>"

definition spec_example :: str where
  "spec_example = ascii ''a,b'' @ [tab] @ ascii ''c'' @ [newline, newline] @ ascii '' d ,, e ''"

section \<open>Lemmas on splitting, trimming and joining\<close>

lemma split_at_nonempty: "split_at sep s \<noteq> []"
  by (induction s) auto

lemma split_at_pieces:
  "p \<in> set (split_at sep s) \<Longrightarrow> c \<in> set p \<Longrightarrow> \<not> sep c \<and> c \<in> set s"
proof (induction s arbitrary: p)
  case Nil
  then show ?case by simp
next
  case (Cons a s)
  obtain h t where ht: "split_at sep s = h # t"
    using split_at_nonempty[of sep s] by (cases "split_at sep s") auto
  show ?case
  proof (cases "sep a")
    case True
    with Cons.prems have "p \<in> set (split_at sep s)" by auto
    with Cons.IH Cons.prems(2) show ?thesis by auto
  next
    case False
    with Cons.prems ht have "p = a # h \<or> p \<in> set t" by auto
    then show ?thesis
    proof
      assume "p = a # h"
      with Cons.prems(2) have "c = a \<or> c \<in> set h" by auto
      then show ?thesis
        using False Cons.IH[of h] ht by auto
    next
      assume "p \<in> set t"
      then have "p \<in> set (split_at sep s)" using ht by simp
      with Cons.IH Cons.prems(2) show ?thesis by auto
    qed
  qed
qed

lemma split_at_none: "\<forall>c \<in> set s. \<not> sep c \<Longrightarrow> split_at sep s = [s]"
  by (induction s) auto

lemma split_at_append:
  "\<forall>c \<in> set x. \<not> sep c \<Longrightarrow> sep d \<Longrightarrow> split_at sep (x @ d # rest) = x # split_at sep rest"
  by (induction x) auto

lemma split_at_join:
  "fs \<noteq> [] \<Longrightarrow> sep d \<Longrightarrow> \<forall>f \<in> set fs. \<forall>c \<in> set f. \<not> sep c \<Longrightarrow>
   split_at sep (join d fs) = fs"
proof (induction d fs rule: join.induct)
  case (1 d)
  then show ?case by simp
next
  case (2 d x)
  then show ?case by (simp add: split_at_none)
next
  case (3 d x y ys)
  then show ?case by (simp add: split_at_append)
qed

lemma set_strip: "set (strip s) \<subseteq> set s"
  unfolding strip_def
  by (metis set_dropWhileD set_rev subsetI)

lemma last_dropWhile_keep:
  "dropWhile P xs \<noteq> [] \<Longrightarrow> last (dropWhile P xs) = last xs"
proof -
  assume ne: "dropWhile P xs \<noteq> []"
  have "last xs = last (takeWhile P xs @ dropWhile P xs)" by simp
  also have "\<dots> = last (dropWhile P xs)" using ne by (rule last_appendR)
  finally show ?thesis by simp
qed

lemma strip_ends:
  assumes "strip s \<noteq> []"
  shows "\<not> isspace (hd (strip s)) \<and> \<not> isspace (last (strip s))"
proof -
  define t where "t = dropWhile isspace s"
  define u where "u = dropWhile isspace (rev t)"
  have su: "strip s = rev u" by (simp add: strip_def t_def u_def)
  with assms have u_ne: "u \<noteq> []" by simp
  then have t_ne: "t \<noteq> []" by (auto simp: u_def)
  have "\<not> isspace (hd u)" using u_ne unfolding u_def by (rule hd_dropWhile)
  then have l: "\<not> isspace (last (strip s))" using u_ne by (simp add: su last_rev)
  have "last u = last (rev t)" using u_ne unfolding u_def by (rule last_dropWhile_keep)
  also have "\<dots> = hd t" using t_ne by (simp add: last_rev)
  finally have "hd (strip s) = hd t" using u_ne by (simp add: su hd_rev)
  moreover have "\<not> isspace (hd t)" using t_ne unfolding t_def by (rule hd_dropWhile)
  ultimately show ?thesis using l by simp
qed

lemma dropWhile_none: "xs \<noteq> [] \<Longrightarrow> \<not> P (hd xs) \<Longrightarrow> dropWhile P xs = xs"
  by (cases xs) auto

lemma strip_fixed:
  assumes "s \<noteq> []" "\<not> isspace (hd s)" "\<not> isspace (last s)"
  shows "strip s = s"
proof -
  from assms(1,2) have a: "dropWhile isspace s = s" by (rule dropWhile_none)
  from assms(1,3) have "rev s \<noteq> []" "\<not> isspace (hd (rev s))" by (simp_all add: hd_rev)
  then have "dropWhile isspace (rev s) = rev s" by (rule dropWhile_none)
  with a show ?thesis by (simp add: strip_def)
qed

lemma strip_Nil: "strip [] = []"
  by (simp add: strip_def)

lemma strip_idem: "strip (strip s) = strip s"
proof (cases "strip s = []")
  case True
  with strip_Nil show ?thesis by simp
next
  case False
  then show ?thesis using strip_ends[OF False] by (simp add: strip_fixed)
qed

lemma strip_blank: "\<forall>c \<in> set s. isspace c \<Longrightarrow> strip s = []"
proof -
  assume "\<forall>c \<in> set s. isspace c"
  then have d: "dropWhile isspace s = []" by (induction s) auto
  show ?thesis unfolding strip_def d by simp
qed

lemma join_nonempty: "fs \<noteq> [] \<Longrightarrow> hd fs \<noteq> [] \<Longrightarrow> join d fs \<noteq> []"
  by (induction d fs rule: join.induct) auto

lemma join_nonempty_last: "fs \<noteq> [] \<Longrightarrow> last fs \<noteq> [] \<Longrightarrow> join d fs \<noteq> []"
  by (induction d fs rule: join.induct) auto

lemma hd_join: "fs \<noteq> [] \<Longrightarrow> hd fs \<noteq> [] \<Longrightarrow> hd (join d fs) = hd (hd fs)"
  by (induction d fs rule: join.induct) auto

lemma last_join: "fs \<noteq> [] \<Longrightarrow> last fs \<noteq> [] \<Longrightarrow> last (join d fs) = last (last fs)"
proof (induction d fs rule: join.induct)
  case (3 d x y ys)
  then have "join d (y # ys) \<noteq> []" by (intro join_nonempty_last) auto
  with 3 show ?case by simp
qed auto

lemma set_join: "c \<in> set (join d fs) \<Longrightarrow> c = d \<or> (\<exists>f \<in> set fs. c \<in> set f)"
  by (induction d fs rule: join.induct) auto

section \<open>Lemmas on the parser\<close>

lemma table_loop_eq:
  "table_loop lines acc = acc @ filter (\<lambda>row. row \<noteq> []) (map parse_row lines)"
  by (induction lines arbitrary: acc) (simp_all add: Let_def)

lemma convert_to_table_eq:
  "convert_to_table text =
     filter (\<lambda>row. row \<noteq> []) (map parse_row (split_at is_newline (strip text)))"
  by (simp add: convert_to_table_def table_loop_eq)

lemma parse_row_blank: "\<forall>c \<in> set line. isspace c \<Longrightarrow> parse_row line = []"
proof -
  assume blank: "\<forall>c \<in> set line. isspace c"
  have "strip item = []" if "item \<in> set (split_at tab_or_comma line)" for item
  proof (rule strip_blank, rule ballI)
    fix c assume "c \<in> set item"
    with that have "c \<in> set line" using split_at_pieces by blast
    with blank show "isspace c" by simp
  qed
  then show ?thesis by (simp add: parse_row_def)
qed

lemma row_nonempty: "row \<in> set (convert_to_table text) \<Longrightarrow> row \<noteq> []"
  by (auto simp: convert_to_table_eq)

lemma field_props:
  assumes "row \<in> set (convert_to_table text)" "f \<in> set row"
  shows "f \<noteq> [] \<and> strip f = f \<and> (\<forall>c \<in> set f. \<not> tab_or_comma c \<and> \<not> is_newline c)"
proof -
  from assms(1) obtain line where line: "line \<in> set (split_at is_newline (strip text))"
    and row: "row = parse_row line"
    by (auto simp: convert_to_table_eq)
  from assms(2) row obtain item where item: "item \<in> set (split_at tab_or_comma line)"
    and ne: "strip item \<noteq> []" and f: "f = strip item"
    by (auto simp: parse_row_def)
  have "\<forall>c \<in> set f. \<not> tab_or_comma c \<and> \<not> is_newline c"
  proof
    fix c assume "c \<in> set f"
    then have c: "c \<in> set item" using f set_strip by auto
    from split_at_pieces[OF item c] have "\<not> tab_or_comma c" "c \<in> set line" by simp_all
    moreover from split_at_pieces[OF line \<open>c \<in> set line\<close>] have "\<not> is_newline c" by simp
    ultimately show "\<not> tab_or_comma c \<and> \<not> is_newline c" by simp
  qed
  then show ?thesis using ne f strip_idem by simp
qed

lemmas eval_defs = ascii_def tab_def newline_def comma_def isspace_def strip_def
  is_newline_def tab_or_comma_def parse_row_def convert_to_table_def

lemma spec_example_rows:
  "convert_to_table spec_example =
     [[ascii ''a'', ascii ''b'', ascii ''c''], [ascii ''d'', ascii ''e'']]"
  by (simp add: spec_example_def eval_defs)

section \<open>The parser's claims\<close>

text \<open>
  Claim C7. \<open>convert_to_table\<close> is a total function of its input string (the model has
  no failing branch, as the source has no operation that can raise on a \<open>str\<close>). Every
  row it produces has at least one field and every field of a row is non-empty. The
  rows are, in line order, the non-empty results of the lines, so a line with no
  non-empty field produces no row; a blank line is such a line.
\<close>

theorem convert_to_table_rows:
  "(\<forall>row \<in> set (convert_to_table text). row \<noteq> [] \<and> (\<forall>f \<in> set row. f \<noteq> [])) \<and>
   convert_to_table text =
     filter (\<lambda>row. row \<noteq> []) (map parse_row (split_at is_newline (strip text))) \<and>
   ((\<forall>c \<in> set line. isspace c) \<longrightarrow> parse_row line = [])"
  using row_nonempty field_props convert_to_table_eq parse_row_blank by blast

theorem convert_to_table_rows_witness:
  "convert_to_table spec_example =
     [[ascii ''a'', ascii ''b'', ascii ''c''], [ascii ''d'', ascii ''e'']] \<and>
   split_at is_newline (strip spec_example) =
     [ascii ''a,b'' @ [tab] @ ascii ''c'', [], ascii '' d ,, e''] \<and>
   parse_row [] = [] \<and> parse_row (ascii '' d ,, e'') = [ascii ''d'', ascii ''e'']"
  using convert_to_table_rows [of spec_example "[]"]
  by (simp add: spec_example_rows) (simp add: spec_example_def eval_defs)

text \<open>
  Claim C8. The parser reproduces its own rows: joining the fields of any row it
  produced with one comma, or with one tab, and parsing the result gives exactly that
  row.
\<close>

theorem convert_to_table_join:
  assumes "row \<in> set (convert_to_table text)" "d = comma \<or> d = tab"
  shows "convert_to_table (join d row) = [row]"
proof -
  have ne: "row \<noteq> []" using assms(1) by (rule row_nonempty)
  have fp: "\<And>f. f \<in> set row \<Longrightarrow>
      f \<noteq> [] \<and> strip f = f \<and> (\<forall>c \<in> set f. \<not> tab_or_comma c \<and> \<not> is_newline c)"
    using field_props[OF assms(1)] by blast
  have hdne: "hd row \<noteq> []" and lastne: "last row \<noteq> []" using ne fp by auto
  have "\<not> isspace (hd (hd row))" using strip_ends[of "hd row"] fp[of "hd row"] ne by simp
  then have h: "\<not> isspace (hd (join d row))" using ne hdne by (simp add: hd_join)
  have "\<not> isspace (last (last row))"
    using strip_ends[of "last row"] fp[of "last row"] ne by simp
  then have l: "\<not> isspace (last (join d row))" using ne lastne by (simp add: last_join)
  have s: "strip (join d row) = join d row"
    using join_nonempty[OF ne hdne] h l by (rule strip_fixed)
  have "\<forall>c \<in> set (join d row). \<not> is_newline c"
  proof
    fix c assume "c \<in> set (join d row)"
    then have "c = d \<or> (\<exists>f \<in> set row. c \<in> set f)" by (rule set_join)
    then show "\<not> is_newline c"
    proof
      assume "c = d"
      with assms(2) show ?thesis
        by (auto simp: is_newline_def comma_def tab_def newline_def)
    next
      assume "\<exists>f \<in> set row. c \<in> set f"
      then obtain f where "f \<in> set row" "c \<in> set f" by blast
      with fp[of f] show ?thesis by simp
    qed
  qed
  then have lines: "split_at is_newline (join d row) = [join d row]" by (rule split_at_none)
  have "tab_or_comma d" using assms(2) by (auto simp: tab_or_comma_def)
  then have items: "split_at tab_or_comma (join d row) = row"
    using ne fp by (intro split_at_join) auto
  have "parse_row (join d row) = row"
    using fp by (simp add: parse_row_def items filter_id_conv map_idI)
  then show ?thesis using ne by (simp add: convert_to_table_eq s lines)
qed

theorem convert_to_table_join_witness:
  "[ascii ''d'', ascii ''e''] \<in> set (convert_to_table spec_example) \<and>
   convert_to_table (ascii ''d'' @ [tab] @ ascii ''e'') = [[ascii ''d'', ascii ''e'']]"
  using convert_to_table_join [of "[ascii ''d'', ascii ''e'']" spec_example tab]
  by (simp add: spec_example_rows)

text \<open>
  Claim C10. Every field of every row produced by \<open>convert_to_table\<close> is left unchanged
  by \<open>strip\<close>, begins and ends with a character that is not whitespace, and contains
  no comma, no tab and no newline.
\<close>

theorem convert_to_table_fields:
  "row \<in> set (convert_to_table text) \<Longrightarrow> f \<in> set row \<Longrightarrow>
   strip f = f \<and> f \<noteq> [] \<and> \<not> isspace (hd f) \<and> \<not> isspace (last f) \<and>
   comma \<notin> set f \<and> tab \<notin> set f \<and> newline \<notin> set f"
proof -
  assume a: "row \<in> set (convert_to_table text)" "f \<in> set row"
  from field_props[OF a] have fp: "f \<noteq> []" "strip f = f"
    "\<forall>c \<in> set f. \<not> tab_or_comma c \<and> \<not> is_newline c" by simp_all
  from fp(1,2) strip_ends[of f] have "\<not> isspace (hd f) \<and> \<not> isspace (last f)" by simp
  moreover from fp(3) have "comma \<notin> set f \<and> tab \<notin> set f \<and> newline \<notin> set f"
    by (auto simp: tab_or_comma_def is_newline_def)
  ultimately show ?thesis using fp by simp
qed

theorem convert_to_table_fields_witness:
  "[ascii ''d'', ascii ''e''] \<in> set (convert_to_table spec_example) \<and>
   ascii ''d'' \<in> set [ascii ''d'', ascii ''e''] \<and>
   strip (ascii ''d'') = ascii ''d'' \<and> \<not> isspace (hd (ascii ''d'')) \<and>
   comma \<notin> set (ascii ''d'') \<and> tab \<notin> set (ascii ''d'') \<and> newline \<notin> set (ascii ''d'')"
  using convert_to_table_fields [of "[ascii ''d'', ascii ''e'']" spec_example "ascii ''d''"]
  by (simp add: spec_example_rows)

section \<open>Lemmas on the handler\<close>

lemma replies_append: "replies (xs @ ys) = replies xs @ replies ys"
  by (induction xs rule: replies.induct) auto

lemma convert_to_table_Nil: "convert_to_table [] = []"
  by (simp add: convert_to_table_def strip_Nil parse_row_def)

lemmas pipeline_defs = handle_image_message_def handle_try_body_def handle_text_branch_def
  reply_message_def save_message_id_def load_saved_messages_def extract_text_from_image_def
  append_to_sheet_def get_google_sheets_service_def emit_def truthy_def

lemmas input_defs = w_ok_def w_readonly_def w_reply_raises_def w_sink_raises_def
  w_model_raises_def w_blank_def msg123_def fresh_def seen_msg122_def seen_msg123_def png_def

section \<open>The ledger\<close>

text \<open>
  Claim C6. On a ledger file that does not exist, \<open>has\<close> answers "not present" and
  raises nothing. Recording another identifier never changes the answer of \<open>has\<close> for
  \<open>mid\<close>, so the answer stays "not present" until \<open>mid\<close> itself is recorded. After
  \<open>save_message_id\<close> has returned for \<open>mid\<close>, \<open>has\<close> answers "present"; a second
  \<open>save_message_id\<close> for \<open>mid\<close> returns and leaves the file as it is (it does not even
  write), and the stored list is the old one with \<open>mid\<close> appended once if it was
  missing, so a list without duplicates stays without duplicates.
\<close>

theorem ledger_has_save:
  "ledger_has mid (s\<lparr>ledger := Absent\<rparr>) = Inr False \<and>
   (other \<noteq> mid \<longrightarrow> ledger_has mid (snd (save_message_id w other s)) = ledger_has mid s) \<and>
   (fst (save_message_id w mid s) = Inr () \<longrightarrow>
      ledger_has mid (snd (save_message_id w mid s)) = Inr True \<and>
      save_message_id w' mid (snd (save_message_id w mid s)) =
        (Inr (), snd (save_message_id w mid s)) \<and>
      (\<forall>ids. load_saved_messages s = Inr ids \<longrightarrow>
         load_saved_messages (snd (save_message_id w mid s)) =
           Inr (if mid \<in> set ids then ids else ids @ [mid]) \<and>
         (distinct ids \<longrightarrow> distinct (if mid \<in> set ids then ids else ids @ [mid]))))"
  by (auto simp add: ledger_has_def save_message_id_def load_saved_messages_def
      split: ledger_file.splits)

theorem ledger_has_save_witness:
  "ledger_has (ascii ''msg123'') fresh = Inr False \<and>
   ledger_has (ascii ''msg123'') (snd (save_message_id w_ok (ascii ''msg122'') fresh)) = Inr False \<and>
   fst (save_message_id w_ok (ascii ''msg123'') fresh) = Inr () \<and>
   ledger_has (ascii ''msg123'') (snd (save_message_id w_ok (ascii ''msg123'') fresh)) = Inr True \<and>
   save_message_id w_ok (ascii ''msg123'') (snd (save_message_id w_ok (ascii ''msg123'') fresh)) =
     (Inr (), fresh\<lparr>ledger := Stored [ascii ''msg123'']\<rparr>)"
  using ledger_has_save [of "ascii ''msg123''" fresh "ascii ''msg122''" w_ok w_ok]
  by (simp add: input_defs ledger_has_def save_message_id_def load_saved_messages_def eval_defs)

section \<open>The handler\<close>

text \<open>
  Claim C1. When the identifier of the event is already in the ledger, the handler
  returns at once with the state as it was: the ledger is unchanged and the trace has no
  new entry, so there is no fetch, no extraction, no sink call and no reply.
\<close>

theorem dedupe_is_silent:
  "ledger s = Stored ids \<Longrightarrow> message_id ev \<in> set ids \<Longrightarrow>
   handle_image_message w ev s = (Inr (), s)"
  by (simp add: pipeline_defs)

theorem dedupe_is_silent_witness:
  "ledger seen_msg123 = Stored [ascii ''msg123''] \<and>
   message_id msg123 \<in> set [ascii ''msg123''] \<and>
   handle_image_message w_ok msg123 seen_msg123 = (Inr (), seen_msg123)"
  using dedupe_is_silent [of seen_msg123 "[ascii ''msg123'']" msg123 w_ok]
  by (simp add: input_defs)

text \<open>
  Claim C2, amended. For a first delivery (the identifier is not in the ledger) where the
  media fetch returns status 200, extraction returns text that parses into at least one
  row, the sink append succeeds, and moreover the reply call returns and the ledger
  file can be written: the handler makes exactly one reply, the success reply, records
  the identifier, and hands the sink one metadata row (time, identifier) followed by
  the parsed rows in line order.
\<close>

theorem first_delivery:
  assumes "load_saved_messages s = Inr ids" "message_id ev \<notin> set ids"
    and "http_get w = Returns (200, img)"
    and "generate_content w = Returns text" "convert_to_table text \<noteq> []"
    and "truthy (service_account_file w)" "sheets_append w = Returns ()"
    and "reply_call w = Returns ()" "ledger_writable w"
  shows "handle_image_message w ev s =
           (Inr (),
            s\<lparr>ledger := Stored (ids @ [message_id ev]),
              trace := trace s @ [FetchCall (message_id ev), ExtractCall img,
                AppendCall ([now w, ascii ''LINE Message ID: '' @ message_id ev]
                            # convert_to_table text),
                ReplyCall (reply_token ev) success_text]\<rparr>)"
proof -
  from assms(5) have "text \<noteq> []" using convert_to_table_Nil by auto
  with assms show ?thesis
    by (auto simp add: pipeline_defs split: option.splits ledger_file.splits)
qed

theorem first_delivery_witness:
  "load_saved_messages fresh = Inr [] \<and> message_id msg123 \<notin> set [] \<and>
   http_get w_ok = Returns (200, png) \<and> generate_content w_ok = Returns (ascii ''a,b'') \<and>
   convert_to_table (ascii ''a,b'') = [[ascii ''a'', ascii ''b'']] \<and>
   truthy (service_account_file w_ok) \<and> sheets_append w_ok = Returns () \<and>
   reply_call w_ok = Returns () \<and> ledger_writable w_ok \<and>
   handle_image_message w_ok msg123 fresh =
     (Inr (),
      \<lparr>ledger = Stored [ascii ''msg123''],
       trace = [FetchCall (ascii ''msg123''), ExtractCall png,
         AppendCall [[ascii ''2024-01-01 00:00:00'', ascii ''LINE Message ID: msg123''],
                     [ascii ''a'', ascii ''b'']],
         ReplyCall (ascii ''tok'') success_text]\<rparr>)"
  using first_delivery [of fresh "[]" msg123 w_ok png "ascii ''a,b''"]
  by (simp add: input_defs load_saved_messages_def truthy_def eval_defs)

text \<open>
  Without the last two conditions the statement fails. The handler replies before it
  records. In \<open>w_readonly\<close> the fetch, the extraction (one row) and the sink append
  succeed as the claim asks, but the ledger file cannot be written: \<open>save_message_id\<close>
  raises after the success reply, the outer \<open>except\<close> sends the error reply as well,
  and the identifier is not recorded. In \<open>w_reply_raises\<close> the success reply itself
  raises, with the same two consequences.
\<close>

theorem first_delivery_counterexample:
  "load_saved_messages fresh = Inr [] \<and> message_id msg123 \<notin> set [] \<and>
   http_get w_readonly = Returns (200, png) \<and>
   generate_content w_readonly = Returns (ascii ''a,b'') \<and>
   convert_to_table (ascii ''a,b'') = [[ascii ''a'', ascii ''b'']] \<and>
   truthy (service_account_file w_readonly) \<and> sheets_append w_readonly = Returns () \<and>
   handle_image_message w_readonly msg123 fresh =
     (Inr (),
      \<lparr>ledger = Absent,
       trace = [FetchCall (ascii ''msg123''), ExtractCall png,
         AppendCall [[ascii ''2024-01-01 00:00:00'', ascii ''LINE Message ID: msg123''],
                     [ascii ''a'', ascii ''b'']],
         ReplyCall (ascii ''tok'') success_text,
         ReplyCall (ascii ''tok'') error_text]\<rparr>) \<and>
   http_get w_reply_raises = Returns (200, png) \<and>
   generate_content w_reply_raises = Returns (ascii ''a,b'') \<and>
   truthy (service_account_file w_reply_raises) \<and>
   sheets_append w_reply_raises = Returns () \<and>
   handle_image_message w_reply_raises msg123 fresh =
     (Inr (),
      \<lparr>ledger = Absent,
       trace = [FetchCall (ascii ''msg123''), ExtractCall png,
         AppendCall [[ascii ''2024-01-01 00:00:00'', ascii ''LINE Message ID: msg123''],
                     [ascii ''a'', ascii ''b'']],
         ReplyCall (ascii ''tok'') success_text,
         ReplyCall (ascii ''tok'') error_text]\<rparr>)"
  by (simp add: input_defs pipeline_defs eval_defs)

text \<open>
  Claim C3. Whenever the sink append is reached and raises (the service account file is
  not configured, or the append request fails), the handler makes exactly one reply, the
  generic error reply, and leaves the ledger as it was: the identifier is still not
  recorded, so a redelivery is not stopped by the dedupe check.
\<close>

theorem sink_failure:
  assumes "load_saved_messages s = Inr ids" "message_id ev \<notin> set ids"
    and "http_get w = Returns (200, img)" "generate_content w = Returns text" "text \<noteq> []"
    and "\<not> truthy (service_account_file w) \<or> sheets_append w = Raises"
  shows "snd (handle_image_message w ev s) =
           s\<lparr>trace := trace s @ [FetchCall (message_id ev), ExtractCall img,
              AppendCall ([now w, ascii ''LINE Message ID: '' @ message_id ev]
                          # convert_to_table text),
              ReplyCall (reply_token ev) error_text]\<rparr> \<and>
         ledger_has (message_id ev) (snd (handle_image_message w ev s)) = Inr False"
  using assms
  by (auto simp add: pipeline_defs ledger_has_def split: option.splits ledger_file.splits)

theorem sink_failure_witness:
  "load_saved_messages fresh = Inr [] \<and> message_id msg123 \<notin> set [] \<and>
   http_get w_sink_raises = Returns (200, png) \<and>
   generate_content w_sink_raises = Returns (ascii ''a,b'') \<and>
   ascii ''a,b'' \<noteq> [] \<and> sheets_append w_sink_raises = Raises \<and>
   snd (handle_image_message w_sink_raises msg123 fresh) =
     \<lparr>ledger = Absent,
      trace = [FetchCall (ascii ''msg123''), ExtractCall png,
        AppendCall [[ascii ''2024-01-01 00:00:00'', ascii ''LINE Message ID: msg123''],
                    [ascii ''a'', ascii ''b'']],
        ReplyCall (ascii ''tok'') error_text]\<rparr> \<and>
   ledger_has (message_id msg123) (snd (handle_image_message w_sink_raises msg123 fresh)) =
     Inr False"
  using sink_failure [of fresh "[]" msg123 w_sink_raises png "ascii ''a,b''"]
  by (simp add: input_defs load_saved_messages_def ledger_has_def eval_defs)

text \<open>
  Claim C4, amended. When extraction is reached and gives no text (the model call raised
  and was mapped to \<open>None\<close>, or it returned the empty string), and moreover the reply
  call returns and the ledger file can be written: the handler makes exactly one reply,
  the "extraction failed" reply, records the identifier, and never calls the sink.
\<close>

theorem no_text:
  assumes "load_saved_messages s = Inr ids" "message_id ev \<notin> set ids"
    and "http_get w = Returns (200, img)"
    and "generate_content w = Raises \<or> generate_content w = Returns []"
    and "reply_call w = Returns ()" "ledger_writable w"
  shows "handle_image_message w ev s =
           (Inr (),
            s\<lparr>ledger := Stored (ids @ [message_id ev]),
              trace := trace s @ [FetchCall (message_id ev), ExtractCall img,
                ReplyCall (reply_token ev) extraction_failed_text]\<rparr>)"
  using assms by (auto simp add: pipeline_defs split: option.splits ledger_file.splits)

theorem no_text_witness:
  "load_saved_messages fresh = Inr [] \<and> message_id msg123 \<notin> set [] \<and>
   http_get w_model_raises = Returns (200, png) \<and>
   generate_content w_model_raises = Raises \<and>
   reply_call w_model_raises = Returns () \<and> ledger_writable w_model_raises \<and>
   handle_image_message w_model_raises msg123 fresh =
     (Inr (),
      \<lparr>ledger = Stored [ascii ''msg123''],
       trace = [FetchCall (ascii ''msg123''), ExtractCall png,
         ReplyCall (ascii ''tok'') extraction_failed_text]\<rparr>)"
  using no_text [of fresh "[]" msg123 w_model_raises png]
  by (simp add: input_defs load_saved_messages_def eval_defs)

text \<open>
  Without the last two conditions the statement fails. Extraction gives no text in both
  runs below. When the ledger file cannot be written, the "extraction failed" reply is
  followed by the error reply and the identifier is not recorded; the same holds when
  the "extraction failed" reply raises.
\<close>

theorem no_text_counterexample:
  "extract_text_from_image (w_model_raises\<lparr>ledger_writable := False\<rparr>) png fresh =
     (None, \<lparr>ledger = Absent, trace = [ExtractCall png]\<rparr>) \<and>
   handle_image_message (w_model_raises\<lparr>ledger_writable := False\<rparr>) msg123 fresh =
     (Inr (),
      \<lparr>ledger = Absent,
       trace = [FetchCall (ascii ''msg123''), ExtractCall png,
         ReplyCall (ascii ''tok'') extraction_failed_text,
         ReplyCall (ascii ''tok'') error_text]\<rparr>) \<and>
   handle_image_message (w_model_raises\<lparr>reply_call := Raises\<rparr>) msg123 fresh =
     (Inr (),
      \<lparr>ledger = Absent,
       trace = [FetchCall (ascii ''msg123''), ExtractCall png,
         ReplyCall (ascii ''tok'') extraction_failed_text,
         ReplyCall (ascii ''tok'') error_text]\<rparr>)"
  by (simp add: input_defs pipeline_defs eval_defs)

text \<open>
  Claim C5, amended. For every inbound event the handler makes exactly one reply (the
  success, the "extraction failed" or the generic error text), except in the dedupe
  short-circuit, which makes none, and except when a failure occurs after the reply of
  the pipeline itself has been issued, that is when that reply call raises or the
  ledger file cannot be written: only then a second reply, the generic error reply, is
  made for the same event. The equation lists the reply texts of the event for every
  world, every event and every state.
\<close>

theorem one_reply:
  "replies (trace (snd (handle_image_message w ev s))) =
     replies (trace s) @
     (case load_saved_messages s of
        Inl e \<Rightarrow> [error_text]
      | Inr saved_messages \<Rightarrow>
          if message_id ev \<in> set saved_messages then []
          else
            (case http_get w of
               Raises \<Rightarrow> [error_text]
             | Returns response \<Rightarrow>
                 if fst response = 200 then
                   (if generate_content w = Raises \<or> generate_content w = Returns [] then
                      extraction_failed_text #
                        (if reply_call w = Returns () \<and> ledger_writable w then []
                         else [error_text])
                    else if truthy (service_account_file w) \<and> sheets_append w = Returns ()
                    then
                      success_text #
                        (if reply_call w = Returns () \<and> ledger_writable w then []
                         else [error_text])
                    else [error_text])
                 else [error_text]))"
  by (cases "reply_call w"; cases "sheets_append w")
     (auto simp add: pipeline_defs Let_def replies_append
        split: option.splits ledger_file.splits outcome.splits sum.splits)

theorem one_reply_witness:
  "replies (trace (snd (handle_image_message w_readonly msg123 seen_msg123))) = [] \<and>
   replies (trace (snd (handle_image_message w_ok msg123 fresh))) = [success_text] \<and>
   replies (trace (snd (handle_image_message w_model_raises msg123 fresh))) =
     [extraction_failed_text] \<and>
   replies (trace (snd (handle_image_message w_sink_raises msg123 fresh))) = [error_text] \<and>
   replies (trace (snd (handle_image_message (w_readonly\<lparr>sheets_append := Raises\<rparr>)
      msg123 fresh))) = [error_text] \<and>
   replies (trace (snd (handle_image_message w_readonly msg123 fresh))) =
     [success_text, error_text]"
  using one_reply [of w_readonly msg123 seen_msg123] one_reply [of w_ok msg123 fresh]
    one_reply [of w_model_raises msg123 fresh] one_reply [of w_sink_raises msg123 fresh]
    one_reply [of "w_readonly\<lparr>sheets_append := Raises\<rparr>" msg123 fresh]
    one_reply [of w_readonly msg123 fresh]
  by (simp add: input_defs load_saved_messages_def truthy_def eval_defs)

text \<open>
  The claim as it was stated fails: a failure after the first reply does lead to a
  second one. The identifier is not in the ledger in any run below. In the first the
  success reply has been sent, then recording the identifier fails, and the outer
  \<open>except\<close> replies again. In the second the success reply itself raises, and the outer
  \<open>except\<close> replies again. In the third the download fails while the ledger file cannot
  be written and the reply call of the pipeline would raise: the failure comes before
  any reply, and the one error reply is all that is made.
\<close>

theorem one_reply_counterexample:
  "ledger_has (message_id msg123) seen_msg122 = Inr False \<and>
   replies (trace (snd (handle_image_message (w_blank\<lparr>ledger_writable := False\<rparr>) msg123
      seen_msg122))) = [success_text, error_text] \<and>
   ledger (snd (handle_image_message (w_blank\<lparr>ledger_writable := False\<rparr>) msg123
      seen_msg122)) = Stored [ascii ''msg122''] \<and>
   replies (trace (snd (handle_image_message w_reply_raises msg123 seen_msg122))) =
     [success_text, error_text] \<and>
   replies (trace (snd (handle_image_message
      (w_ok\<lparr>http_get := Returns (404, []), ledger_writable := False, reply_call := Raises\<rparr>)
      msg123 seen_msg122))) = [error_text]"
  by (simp add: input_defs pipeline_defs ledger_has_def eval_defs)

text \<open>
  Claim C9, amended. When extraction returns text that is present but parses into no row,
  and the sink append succeeds, the handler hands the sink exactly the single metadata
  row and then makes the success reply. (A generic error reply follows only if that
  reply call raises or the ledger file cannot be written.)
\<close>

theorem zero_rows:
  assumes "load_saved_messages s = Inr ids" "message_id ev \<notin> set ids"
    and "http_get w = Returns (200, img)"
    and "generate_content w = Returns text" "text \<noteq> []" "convert_to_table text = []"
    and "truthy (service_account_file w)" "sheets_append w = Returns ()"
  shows "trace (snd (handle_image_message w ev s)) =
           trace s @ [FetchCall (message_id ev), ExtractCall img,
             AppendCall [[now w, ascii ''LINE Message ID: '' @ message_id ev]],
             ReplyCall (reply_token ev) success_text]
           @ (if reply_call w = Returns () \<and> ledger_writable w then []
              else [ReplyCall (reply_token ev) error_text])"
  using assms
  by (cases "reply_call w")
     (auto simp add: pipeline_defs split: option.splits ledger_file.splits)

theorem zero_rows_witness:
  "load_saved_messages fresh = Inr [] \<and> message_id msg123 \<notin> set [] \<and>
   http_get w_blank = Returns (200, png) \<and>
   generate_content w_blank = Returns (ascii ''  '') \<and>
   ascii ''  '' \<noteq> [] \<and> convert_to_table (ascii ''  '') = [] \<and>
   truthy (service_account_file w_blank) \<and> sheets_append w_blank = Returns () \<and>
   trace (snd (handle_image_message w_blank msg123 fresh)) =
     [FetchCall (ascii ''msg123''), ExtractCall png,
      AppendCall [[ascii ''2024-01-01 00:00:00'', ascii ''LINE Message ID: msg123'']],
      ReplyCall (ascii ''tok'') success_text]"
  using zero_rows [of fresh "[]" msg123 w_blank png "ascii ''  ''"]
  by (simp add: input_defs load_saved_messages_def truthy_def eval_defs)

text \<open>
  Without the condition on the sink the statement fails: the text is present and parses
  into no row, the sink is handed the single metadata row, the append raises, and the
  only reply is the generic error reply.
\<close>

theorem zero_rows_counterexample:
  "extract_text_from_image (w_blank\<lparr>sheets_append := Raises\<rparr>) png fresh =
     (Some (ascii ''  ''), \<lparr>ledger = Absent, trace = [ExtractCall png]\<rparr>) \<and>
   ascii ''  '' \<noteq> [] \<and> convert_to_table (ascii ''  '') = [] \<and>
   handle_image_message (w_blank\<lparr>sheets_append := Raises\<rparr>) msg123 fresh =
     (Inr (),
      \<lparr>ledger = Absent,
       trace = [FetchCall (ascii ''msg123''), ExtractCall png,
         AppendCall [[ascii ''2024-01-01 00:00:00'', ascii ''LINE Message ID: msg123'']],
         ReplyCall (ascii ''tok'') error_text]\<rparr>)"
  by (simp add: input_defs pipeline_defs eval_defs)

end
